theory Spec2Isabelle
  imports Complex_Main
begin

section \<open>Values\<close>

text \<open>
  A Python \<open>str\<close> is the list of its code points. \<open>isspace\<close> is the table behind
  \<open>str.strip()\<close> called with no argument: the code points Python counts as whitespace.
\<close>

type_synonym pystr = "nat list"

definition str_of :: "string \<Rightarrow> pystr" where
  "str_of s = map of_char s"

definition isspace :: "nat \<Rightarrow> bool" where
  "isspace c =
     ((9 \<le> c \<and> c \<le> 13) \<or> (28 \<le> c \<and> c \<le> 32) \<or> c = 133 \<or> c = 160 \<or> c = 5760
      \<or> (8192 \<le> c \<and> c \<le> 8202) \<or> c = 8232 \<or> c = 8233 \<or> c = 8239 \<or> c = 8287
      \<or> c = 12288)"

definition strip :: "pystr \<Rightarrow> pystr" where
  "strip s = rev (dropWhile isspace (rev (dropWhile isspace s)))"

text \<open>A \<open>datetime.date\<close>; every such object is true in a boolean context.\<close>

datatype pydate = Date (year: nat) (month: nat) (day: nat)

text \<open>
  The exceptions the serializers can end with: \<open>serializers.ValidationError\<close> with its
  message, \<open>AttributeError\<close> from a method call on \<open>None\<close>, \<open>KeyError\<close> from
  \<open>dict.pop\<close> of a missing key, \<open>decimal.Overflow\<close> from arithmetic on a \<open>Decimal\<close>.
\<close>

datatype error = ValidationError string | AttributeError | KeyError string | Overflow

definition then_do :: "error + 'a \<Rightarrow> (error + 'b) \<Rightarrow> error + 'b" where
  "then_do r k = (case r of Inl e \<Rightarrow> Inl e | Inr _ \<Rightarrow> k)"

section \<open>Decimal arithmetic\<close>






section \<open>Line items\<close>

text \<open>
  Modelled from the spec: \<open>models.py\<close> is not among the sources, so the column types of
  \<open>InvoiceDetail\<close> and \<open>Invoice\<close> follow the spec's data model: the quantity is an
  integer, the unit price a \<open>Decimal\<close> (here its value, a rational), description, invoice
  number and customer name are text, the date is a date value. A stored line item has
  its identifier \<open>pk\<close> and the identifier \<open>invoice_id\<close> of the invoice that owns it; it has
  no column for the line total.
\<close>

record Model =
  pk :: nat

record InvoiceDetail = Model +
  invoice_id :: nat
  description :: pystr
  quantity :: int
  unit_price :: rat

text \<open>One submitted line item: the mapping with the keys of the three writable fields.\<close>

record detail_data =
  dd_description :: pystr
  dd_quantity :: int
  dd_unit_price :: rat


definition validate_quantity :: "int \<Rightarrow> error + int" where
  "validate_quantity v =
     (if v \<le> 0 then Inl (ValidationError ''Quantity must be a positive integer.'')
      else Inr v)"

definition validate_unit_price :: "rat \<Rightarrow> error + rat" where
  "validate_unit_price v =
     (if v \<le> 0 then Inl (ValidationError ''Unit price must be a positive value.'')
      else Inr v)"

definition validate_description :: "pystr \<Rightarrow> error + pystr" where
  "validate_description v =
     (if strip v = [] then Inl (ValidationError ''Description cannot be empty or whitespace.'')
      else Inr v)"



section \<open>Invoices and their storage\<close>

record Invoice = Model +
  invoice_number :: pystr
  customer_name :: pystr
  date :: pydate

text \<open>
  The mapping handed to \<open>validate\<close>, \<open>create\<close> and \<open>update\<close>. Each field is what
  \<open>data.get(key)\<close> returns: \<open>None\<close> when the key is absent.
\<close>

record invoice_data =
  vd_details :: "detail_data list option"
  vd_invoice_number :: "pystr option"
  vd_customer_name :: "pystr option"
  vd_date :: "pydate option"

text \<open>
  Modelled from the spec: the persistence collaborator (the object-relational mapper and
  the tables declared in \<open>models.py\<close>) is not among the sources. Storage holds the two
  tables in insertion order, the identifier each table assigns next, and a journal of
  the write operations in the order they reached storage. The operations are the ones
  the spec's collaborator contract lists: create, update and delete of header and
  line-item records, filtering by invoice number and by parent invoice identifier.
\<close>

datatype db_op =
  InsertInvoice nat
  | UpdateInvoice nat
  | DeleteInvoice nat
  | InsertDetail nat nat
  | DeleteDetails nat

record storage =
  Invoice_objects :: "Invoice list"
  InvoiceDetail_objects :: "InvoiceDetail list"
  next_invoice_pk :: nat
  next_detail_pk :: nat
  journal :: "db_op list"

text \<open>
  Modelled from the spec: \<open>Invoice.objects.filter(invoice_number=n).exists()\<close>. The
  stored column holds text, so a lookup of \<open>None\<close> matches no row.
\<close>

definition Invoice_filter_exists :: "storage \<Rightarrow> pystr option \<Rightarrow> bool" where
  "Invoice_filter_exists db n = list_ex (\<lambda>i. Some (invoice_number i) = n) (Invoice_objects db)"

text \<open>
  Modelled from the spec: \<open>Invoice.objects.create(**kwargs)\<close> persists the header under a
  new identifier. A header key left out of the keyword arguments takes the default that
  \<open>models.py\<close> declares for the column, the parameter \<open>dflt\<close>.
\<close>

definition Invoice_objects_create :: "Invoice \<Rightarrow> storage \<Rightarrow> invoice_data \<Rightarrow> Invoice \<times> storage" where
  "Invoice_objects_create dflt db kwargs =
     (let invoice =
        \<lparr>pk = next_invoice_pk db,
         invoice_number =
           (case vd_invoice_number kwargs of None \<Rightarrow> invoice_number dflt | Some v \<Rightarrow> v),
         customer_name =
           (case vd_customer_name kwargs of None \<Rightarrow> customer_name dflt | Some v \<Rightarrow> v),
         date = (case vd_date kwargs of None \<Rightarrow> date dflt | Some v \<Rightarrow> v)\<rparr>
      in (invoice,
          db\<lparr>Invoice_objects := Invoice_objects db @ [invoice],
             next_invoice_pk := Suc (next_invoice_pk db),
             journal := journal db @ [InsertInvoice (pk invoice)]\<rparr>))"

text \<open>
  Modelled from the spec: \<open>InvoiceDetail.objects.create(invoice=invoice, **detail_data)\<close>
  persists one line item under a new identifier, linked to the invoice.
\<close>

definition InvoiceDetail_objects_create :: "storage \<Rightarrow> Invoice \<Rightarrow> detail_data \<Rightarrow> storage" where
  "InvoiceDetail_objects_create db invoice detail =
     (let obj =
        \<lparr>pk = next_detail_pk db, invoice_id = pk invoice,
         description = dd_description detail, quantity = dd_quantity detail,
         unit_price = dd_unit_price detail\<rparr>
      in db\<lparr>InvoiceDetail_objects := InvoiceDetail_objects db @ [obj],
            next_detail_pk := Suc (next_detail_pk db),
            journal := journal db @ [InsertDetail (pk obj) (pk invoice)]\<rparr>)"

text \<open>
  Modelled from the spec: \<open>instance.save()\<close> writes the instance's fields to the row with
  its identifier, and inserts the row when storage has none with that identifier.
\<close>

definition Invoice_save :: "storage \<Rightarrow> Invoice \<Rightarrow> storage" where
  "Invoice_save db instance =
     (if list_ex (\<lambda>i. pk i = pk instance) (Invoice_objects db)
      then db\<lparr>Invoice_objects :=
                 map (\<lambda>i. if pk i = pk instance then instance else i) (Invoice_objects db),
               journal := journal db @ [UpdateInvoice (pk instance)]\<rparr>
      else db\<lparr>Invoice_objects := Invoice_objects db @ [instance],
               next_invoice_pk := max (next_invoice_pk db) (Suc (pk instance)),
               journal := journal db @ [InsertInvoice (pk instance)]\<rparr>)"

text \<open>
  Modelled from the spec: \<open>instance.details.all().delete()\<close> destroys every line item
  whose parent is the instance.
\<close>

definition details_all_delete :: "storage \<Rightarrow> Invoice \<Rightarrow> storage" where
  "details_all_delete db instance =
     db\<lparr>InvoiceDetail_objects :=
          filter (\<lambda>d. invoice_id d \<noteq> pk instance) (InvoiceDetail_objects db),
        journal := journal db @ [DeleteDetails (pk instance)]\<rparr>"

text \<open>
  Modelled from the spec: \<open>instance.delete()\<close> destroys the header record. What it does to
  line items still linked to the header is declared in \<open>models.py\<close>; the serializer calls
  it after the line items are gone.
\<close>

definition Invoice_delete :: "storage \<Rightarrow> Invoice \<Rightarrow> storage" where
  "Invoice_delete db instance =
     db\<lparr>Invoice_objects := filter (\<lambda>i. pk i \<noteq> pk instance) (Invoice_objects db),
        journal := journal db @ [DeleteInvoice (pk instance)]\<rparr>"

section \<open>The invoice serializer\<close>

text \<open>
  The four checks of \<open>validate\<close> (the source's names start with an underscore). Each
  returns nothing on success, so success is \<open>Inr ()\<close>. \<open>not details\<close> holds of \<open>None\<close>
  and of the empty list; \<open>not date\<close> holds of \<open>None\<close> only; \<open>customer_name.strip()\<close>
  on \<open>None\<close> raises \<open>AttributeError\<close>.
\<close>

definition validate_details :: "detail_data list option \<Rightarrow> error + unit" where
  "validate_details details =
     (case details of
        None \<Rightarrow> Inl (ValidationError ''Invoice must have at least one detail item.'')
      | Some [] \<Rightarrow> Inl (ValidationError ''Invoice must have at least one detail item.'')
      | Some (_ # _) \<Rightarrow> Inr ())"

definition validate_invoice_number :: "storage \<Rightarrow> pystr option \<Rightarrow> error + unit" where
  "validate_invoice_number db n =
     (if Invoice_filter_exists db n then Inl (ValidationError ''Invoice number must be unique.'')
      else Inr ())"

definition validate_customer_name :: "pystr option \<Rightarrow> error + unit" where
  "validate_customer_name n =
     (case n of
        None \<Rightarrow> Inl AttributeError
      | Some s \<Rightarrow>
          if strip s = [] then Inl (ValidationError ''Customer name cannot be empty.'')
          else Inr ())"

definition validate_date :: "pydate option \<Rightarrow> error + unit" where
  "validate_date d =
     (case d of
        None \<Rightarrow> Inl (ValidationError ''Date cannot be empty.'')
      | Some _ \<Rightarrow> Inr ())"

definition validate :: "storage \<Rightarrow> invoice_data \<Rightarrow> error + invoice_data" where
  "validate db data =
     then_do (validate_details (vd_details data))
       (then_do (validate_invoice_number db (vd_invoice_number data))
          (then_do (validate_customer_name (vd_customer_name data))
             (then_do (validate_date (vd_date data))
                (Inr data))))"

fun create_invoice_details :: "storage \<Rightarrow> Invoice \<Rightarrow> detail_data list \<Rightarrow> storage" where
  "create_invoice_details db invoice [] = db"
| "create_invoice_details db invoice (detail_data # details_data) =
     create_invoice_details (InvoiceDetail_objects_create db invoice detail_data) invoice
       details_data"

text \<open>
  \<open>validated_data.pop('details')\<close> raises \<open>KeyError\<close> when the key is absent, before
  anything is written.
\<close>

definition create :: "Invoice \<Rightarrow> storage \<Rightarrow> invoice_data \<Rightarrow> error + Invoice \<times> storage" where
  "create dflt db validated_data =
     (case vd_details validated_data of
        None \<Rightarrow> Inl (KeyError ''details'')
      | Some details_data \<Rightarrow>
          (let (invoice, db1) = Invoice_objects_create dflt db validated_data;
               db2 = create_invoice_details db1 invoice details_data
           in Inr (invoice, db2)))"

definition update :: "storage \<Rightarrow> Invoice \<Rightarrow> invoice_data \<Rightarrow> error + Invoice \<times> storage" where
  "update db instance validated_data =
     (case vd_details validated_data of
        None \<Rightarrow> Inl (KeyError ''details'')
      | Some details_data \<Rightarrow>
          (let instance1 = instance
                 \<lparr>invoice_number :=
                    (case vd_invoice_number validated_data of
                       None \<Rightarrow> invoice_number instance | Some v \<Rightarrow> v),
                  customer_name :=
                    (case vd_customer_name validated_data of
                       None \<Rightarrow> customer_name instance | Some v \<Rightarrow> v),
                  date :=
                    (case vd_date validated_data of None \<Rightarrow> date instance | Some v \<Rightarrow> v)\<rparr>;
               db1 = Invoice_save db instance1;
               db2 = details_all_delete db1 instance1;
               db3 = create_invoice_details db2 instance1 details_data
           in Inr (instance1, db3)))"

definition delete :: "storage \<Rightarrow> Invoice \<Rightarrow> (string \<times> string) list \<times> storage" where
  "delete db instance =
     (let db1 = details_all_delete db instance;
          db2 = Invoice_delete db1 instance
      in ([(''message'', ''Invoice and its details deleted successfully.'')], db2))"

text \<open>
  The line items that \<open>create_invoice_details\<close> adds for an invoice, the first one under
  the identifier \<open>n\<close>; and the journal entries of their insertion.
\<close>

fun new_details :: "nat \<Rightarrow> nat \<Rightarrow> detail_data list \<Rightarrow> InvoiceDetail list" where
  "new_details n parent [] = []"
| "new_details n parent (d # ds) =
     \<lparr>pk = n, invoice_id = parent, description = dd_description d, quantity = dd_quantity d,
      unit_price = dd_unit_price d\<rparr> # new_details (Suc n) parent ds"

text \<open>
  Storage hands out fresh identifiers: every stored line item has an identifier below
  the next one to be assigned, and is linked to an invoice identifier already assigned.
\<close>

definition fresh_pks :: "storage \<Rightarrow> bool" where
  "fresh_pks db =
     (list_all (\<lambda>d. pk d < next_detail_pk db \<and> invoice_id d < next_invoice_pk db)
        (InvoiceDetail_objects db)
      \<and> list_all (\<lambda>i. pk i < next_invoice_pk db) (Invoice_objects db))"

text \<open>The journal entries of inserting \<open>k\<close> line items for an invoice, from identifier \<open>n\<close> on.\<close>

definition detail_inserts :: "nat \<Rightarrow> nat \<Rightarrow> nat \<Rightarrow> db_op list" where
  "detail_inserts n parent k = map (\<lambda>i. InsertDetail i parent) [n ..< n + k]"

text \<open>The submitted fields of a stored line item.\<close>

definition submitted :: "InvoiceDetail \<Rightarrow> detail_data" where
  "submitted obj =
     \<lparr>dd_description = description obj, dd_quantity = quantity obj,
      dd_unit_price = unit_price obj\<rparr>"

section \<open>Sample data\<close>

text \<open>
  A storage state with one invoice, INV-001 of Acme, and its three line items; and
  submissions against it.
\<close>

definition widget :: detail_data where
  "widget = \<lparr>dd_description = str_of ''Widget'', dd_quantity = 2, dd_unit_price = 5\<rparr>"

definition gadget :: detail_data where
  "gadget = \<lparr>dd_description = str_of ''Gadget'', dd_quantity = 3, dd_unit_price = 5 / 2\<rparr>"

definition acme :: Invoice where
  "acme =
     \<lparr>pk = 1, invoice_number = str_of ''INV-001'', customer_name = str_of ''Acme'',
      date = Date 2024 1 1\<rparr>"

definition acme_db :: storage where
  "acme_db =
     \<lparr>Invoice_objects = [acme],
      InvoiceDetail_objects =
        [\<lparr>pk = 1, invoice_id = 1, description = str_of ''Widget'', quantity = 2,
          unit_price = 5\<rparr>,
         \<lparr>pk = 2, invoice_id = 1, description = str_of ''Gadget'', quantity = 3,
          unit_price = 5 / 2\<rparr>,
         \<lparr>pk = 3, invoice_id = 1, description = str_of ''Bolt'', quantity = 10,
          unit_price = 1 / 4\<rparr>],
      next_invoice_pk = 2, next_detail_pk = 4, journal = []\<rparr>"

definition submission :: "detail_data list option \<Rightarrow> string \<Rightarrow> pystr option \<Rightarrow> invoice_data" where
  "submission ds number name =
     \<lparr>vd_details = ds, vd_invoice_number = Some (str_of number), vd_customer_name = name,
      vd_date = Some (Date 2024 1 1)\<rparr>"

definition rename_only :: invoice_data where
  "rename_only =
     \<lparr>vd_details = Some [gadget], vd_invoice_number = None,
      vd_customer_name = Some (str_of ''Acme Ltd''), vd_date = None\<rparr>"

section \<open>Properties of the line-item validators\<close>

lemma strip_empty_iff: "strip s = [] \<longleftrightarrow> (\<forall>c \<in> set s. isspace c)"
proof -
  have "strip s = [] \<longleftrightarrow> dropWhile isspace (rev (dropWhile isspace s)) = []"
    by (simp add: strip_def)
  also have "\<dots> \<longleftrightarrow> (\<forall>c \<in> set (dropWhile isspace s). isspace c)"
    by (simp add: dropWhile_eq_Nil_conv)
  also have "\<dots> \<longleftrightarrow> (\<forall>c \<in> set s. isspace c)"
  proof
    assume all: "\<forall>c \<in> set (dropWhile isspace s). isspace c"
    have "dropWhile isspace s = []"
    proof (cases "dropWhile isspace s")
      case Nil
      then show ?thesis .
    next
      case (Cons c cs)
      then have "\<not> isspace c"
        using hd_dropWhile [of isspace s] by simp
      moreover from Cons all have "isspace c" by simp
      ultimately show ?thesis by simp
    qed
    then show "\<forall>c \<in> set s. isspace c"
      by (simp add: dropWhile_eq_Nil_conv)
  next
    assume "\<forall>c \<in> set s. isspace c"
    then show "\<forall>c \<in> set (dropWhile isspace s). isspace c"
      by (blast dest: set_dropWhileD)
  qed
  finally show ?thesis .
qed

text \<open>
  C6: a quantity or a unit price that is zero or negative is refused with the
  validator's own message, and a positive one is returned as it came.
\<close>

theorem validate_positive_values:
  "(q \<le> 0 \<longrightarrow> validate_quantity q =
      Inl (ValidationError ''Quantity must be a positive integer.''))
   \<and> (0 < q \<longrightarrow> validate_quantity q = Inr q)
   \<and> (p \<le> 0 \<longrightarrow> validate_unit_price p =
      Inl (ValidationError ''Unit price must be a positive value.''))
   \<and> (0 < p \<longrightarrow> validate_unit_price p = Inr p)"
  by (simp add: validate_quantity_def validate_unit_price_def)

theorem validate_positive_values_witness:
  "validate_quantity 0 = Inl (ValidationError ''Quantity must be a positive integer.'')
   \<and> validate_quantity (- 4) = Inl (ValidationError ''Quantity must be a positive integer.'')
   \<and> validate_quantity 2 = Inr 2
   \<and> validate_unit_price 0 = Inl (ValidationError ''Unit price must be a positive value.'')
   \<and> validate_unit_price (- 1 / 2) =
       Inl (ValidationError ''Unit price must be a positive value.'')
   \<and> validate_unit_price (5 / 2) = Inr (5 / 2)"
  using validate_positive_values [of 0 0] validate_positive_values [of "- 4" "- 1 / 2"]
    validate_positive_values [of 2 "5 / 2"]
  by simp

text \<open>
  C7: a description is refused, with the description message, exactly when stripping it
  leaves nothing, which is exactly when it is empty or made of whitespace only; any
  other description is returned as it came.
\<close>

theorem validate_description_blank:
  "(validate_description v =
      Inl (ValidationError ''Description cannot be empty or whitespace.'')
      \<longleftrightarrow> strip v = [])
   \<and> (strip v = [] \<longleftrightarrow> (\<forall>c \<in> set v. isspace c))
   \<and> (strip v \<noteq> [] \<longrightarrow> validate_description v = Inr v)"
  by (simp add: validate_description_def strip_empty_iff)

theorem validate_description_blank_witness:
  "validate_description [] = Inl (ValidationError ''Description cannot be empty or whitespace.'')
   \<and> validate_description [32, 9, 10, 160, 12288] =
       Inl (ValidationError ''Description cannot be empty or whitespace.'')
   \<and> validate_description (str_of '' Widget '') = Inr (str_of '' Widget '')"
proof -
  have a: "strip [] = []"
    by (simp add: strip_def)
  have b: "strip [32, 9, 10, 160, 12288] = []"
    by (simp add: strip_def isspace_def)
  have c: "strip (str_of '' Widget '') \<noteq> []"
    by (simp add: strip_def isspace_def str_of_def)
  show ?thesis
    using validate_description_blank [of "[]"] validate_description_blank [of "[32, 9, 10, 160, 12288]"]
      validate_description_blank [of "str_of '' Widget ''"] a b c
    by simp
qed

section \<open>Properties of the line total\<close>



















section \<open>Properties of aggregate validation\<close>

lemma then_do_simps:
  "then_do (Inl e) k = Inl e"
  "then_do (Inr u) k = k"
  by (simp_all add: then_do_def)

lemma validate_details_Inr: "validate_details ds = Inr () \<longleftrightarrow> (\<exists>x xs. ds = Some (x # xs))"
  by (simp add: validate_details_def split: option.splits list.splits)

lemma validate_details_cases:
  "validate_details ds =
     (if ds = None \<or> ds = Some []
      then Inl (ValidationError ''Invoice must have at least one detail item.'')
      else Inr ())"
  by (simp add: validate_details_def split: option.splits list.splits)

lemma Invoice_filter_exists_iff:
  "Invoice_filter_exists db n \<longleftrightarrow> (\<exists>i \<in> set (Invoice_objects db). Some (invoice_number i) = n)"
  by (simp add: Invoice_filter_exists_def list_ex_iff)

lemma validate_decision_list:
  "validate db data =
     (if vd_details data = None \<or> vd_details data = Some []
      then Inl (ValidationError ''Invoice must have at least one detail item.'')
      else if Invoice_filter_exists db (vd_invoice_number data)
      then Inl (ValidationError ''Invoice number must be unique.'')
      else case vd_customer_name data of
        None \<Rightarrow> Inl AttributeError
      | Some s \<Rightarrow>
          if strip s = [] then Inl (ValidationError ''Customer name cannot be empty.'')
          else if vd_date data = None then Inl (ValidationError ''Date cannot be empty.'')
          else Inr data)"
  by (simp add: validate_def validate_details_cases validate_invoice_number_def
      validate_customer_name_def validate_date_def then_do_simps split: option.splits)

lemma str_of_inject: "str_of a = str_of b \<longleftrightarrow> a = b"
proof -
  have "inj (of_char :: char \<Rightarrow> nat)"
    by (rule injI) simp
  then show ?thesis
    by (simp add: str_of_def inj_map_eq_map)
qed

text \<open>
  C2, as stated, fails: a submission with no line items and the number of a stored
  invoice is refused by the details check, which runs first, and not with the
  uniqueness message.
\<close>

theorem validate_unique_counterexample:
  "(\<exists>i \<in> set (Invoice_objects acme_db).
      Some (invoice_number i) = vd_invoice_number (submission (Some []) ''INV-001'' (Some (str_of ''Acme''))))
   \<and> validate acme_db (submission (Some []) ''INV-001'' (Some (str_of ''Acme'')))
       \<noteq> Inl (ValidationError ''Invoice number must be unique.'')"
  by (simp add: validate_decision_list submission_def acme_db_def acme_def)

text \<open>
  C2, amended: the uniqueness check fails with the message
  "Invoice number must be unique." exactly when some stored invoice has the submitted
  number; for every submission that passes the details check, aggregate validation
  fails with that message under exactly the same condition. Neither takes the record
  being updated, so a submission that carries the number of a stored invoice, that
  invoice's own update included, is refused.
\<close>

theorem validate_unique:
  "(validate_invoice_number db n = Inl (ValidationError ''Invoice number must be unique.'')
      \<longleftrightarrow> (\<exists>i \<in> set (Invoice_objects db). Some (invoice_number i) = n))
   \<and> (validate_details (vd_details data) = Inr () \<longrightarrow>
        (validate db data = Inl (ValidationError ''Invoice number must be unique.'')
         \<longleftrightarrow> (\<exists>i \<in> set (Invoice_objects db).
               Some (invoice_number i) = vd_invoice_number data)))
   \<and> (instance \<in> set (Invoice_objects db)
        \<and> validate_details (vd_details data) = Inr ()
        \<and> vd_invoice_number data = Some (invoice_number instance) \<longrightarrow>
        validate db data = Inl (ValidationError ''Invoice number must be unique.''))"
proof (intro conjI impI)
  show "validate_invoice_number db n = Inl (ValidationError ''Invoice number must be unique.'')
      \<longleftrightarrow> (\<exists>i \<in> set (Invoice_objects db). Some (invoice_number i) = n)"
    by (simp add: validate_invoice_number_def Invoice_filter_exists_iff)
next
  assume "validate_details (vd_details data) = Inr ()"
  then obtain x xs where ds: "vd_details data = Some (x # xs)"
    by (auto simp: validate_details_Inr)
  show "validate db data = Inl (ValidationError ''Invoice number must be unique.'')
         \<longleftrightarrow> (\<exists>i \<in> set (Invoice_objects db).
               Some (invoice_number i) = vd_invoice_number data)"
  proof (cases "Invoice_filter_exists db (vd_invoice_number data)")
    case True
    with ds show ?thesis
      by (simp add: validate_decision_list Invoice_filter_exists_iff)
  next
    case False
    with ds have "validate db data \<noteq> Inl (ValidationError ''Invoice number must be unique.'')"
      by (simp add: validate_decision_list split: option.splits)
    with False show ?thesis
      by (simp add: Invoice_filter_exists_iff)
  qed
next
  assume a: "instance \<in> set (Invoice_objects db)
        \<and> validate_details (vd_details data) = Inr ()
        \<and> vd_invoice_number data = Some (invoice_number instance)"
  then obtain x xs where "vd_details data = Some (x # xs)"
    by (auto simp: validate_details_Inr)
  moreover from a have "Invoice_filter_exists db (vd_invoice_number data)"
    by (auto simp: Invoice_filter_exists_iff)
  ultimately show "validate db data = Inl (ValidationError ''Invoice number must be unique.'')"
    by (simp add: validate_decision_list)
qed

theorem validate_unique_witness:
  "acme \<in> set (Invoice_objects acme_db)
   \<and> validate_details (vd_details (submission (Some [widget]) ''INV-001'' (Some (str_of ''Acme'')))) = Inr ()
   \<and> validate acme_db (submission (Some [widget]) ''INV-001'' (Some (str_of ''Acme'')))
       = Inl (ValidationError ''Invoice number must be unique.'')
   \<and> validate_invoice_number acme_db (Some (str_of ''INV-001''))
       = Inl (ValidationError ''Invoice number must be unique.'')
   \<and> validate_invoice_number acme_db (Some (str_of ''INV-002'')) = Inr ()"
proof -
  have a: "acme \<in> set (Invoice_objects acme_db)"
    by (simp add: acme_db_def)
  have b: "validate_details (vd_details (submission (Some [widget]) ''INV-001'' (Some (str_of ''Acme'')))) = Inr ()"
    by (simp add: validate_details_def submission_def)
  have c: "vd_invoice_number (submission (Some [widget]) ''INV-001'' (Some (str_of ''Acme'')))
      = Some (invoice_number acme)"
    by (simp add: submission_def acme_def)
  have d: "validate_invoice_number acme_db (Some (str_of ''INV-002'')) = Inr ()"
    by (simp add: validate_invoice_number_def Invoice_filter_exists_def acme_db_def acme_def
        str_of_inject)
  from a b c d show ?thesis
    using validate_unique [of acme_db "Some (str_of ''INV-001'')"
        "submission (Some [widget]) ''INV-001'' (Some (str_of ''Acme''))" acme]
    by (auto simp: acme_def)
qed

text \<open>
  C3 at a submission without the \<open>customer_name\<close> key, whose line items are present and
  whose number is new: the third check is the first that does not pass, and validation
  ends there with \<open>AttributeError\<close>, not with a \<open>ValidationError\<close>. The checks on
  the details and on the date, given an absent value, raise their \<open>ValidationError\<close>.
\<close>

theorem validate_absent_name_evaluation:
  "validate acme_db (submission (Some [widget]) ''INV-002'' None) = Inl AttributeError
   \<and> validate_details None =
       Inl (ValidationError ''Invoice must have at least one detail item.'')
   \<and> validate_date None = Inl (ValidationError ''Date cannot be empty.'')"
  by (simp add: validate_decision_list submission_def Invoice_filter_exists_def acme_db_def
      acme_def str_of_inject validate_details_def validate_date_def)

text \<open>
  C10: when the details check and the uniqueness check pass and \<open>customer_name\<close> is
  absent, validation ends with \<open>AttributeError\<close> (from \<open>strip\<close> called on \<open>None\<close>). The
  message "Customer name cannot be empty." is raised only for a name that is present
  and whose stripped form is empty, by the check and so by validation as a whole.
\<close>

theorem validate_absent_customer_name:
  "(validate_details (vd_details data) = Inr ()
      \<and> validate_invoice_number db (vd_invoice_number data) = Inr ()
      \<and> vd_customer_name data = None \<longrightarrow>
      validate db data = Inl AttributeError)
   \<and> (validate_customer_name n = Inl (ValidationError ''Customer name cannot be empty.'')
        \<longleftrightarrow> (\<exists>s. n = Some s \<and> strip s = []))
   \<and> (validate db data = Inl (ValidationError ''Customer name cannot be empty.'') \<longrightarrow>
        (\<exists>s. vd_customer_name data = Some s \<and> strip s = []))"
proof (intro conjI impI)
  assume "validate_details (vd_details data) = Inr ()
      \<and> validate_invoice_number db (vd_invoice_number data) = Inr ()
      \<and> vd_customer_name data = None"
  then show "validate db data = Inl AttributeError"
    by (simp add: validate_def validate_customer_name_def then_do_simps)
next
  show "validate_customer_name n = Inl (ValidationError ''Customer name cannot be empty.'')
        \<longleftrightarrow> (\<exists>s. n = Some s \<and> strip s = [])"
    by (simp add: validate_customer_name_def split: option.splits)
next
  assume "validate db data = Inl (ValidationError ''Customer name cannot be empty.'')"
  then show "\<exists>s. vd_customer_name data = Some s \<and> strip s = []"
    by (simp add: validate_decision_list split: if_splits option.splits)
qed

theorem validate_absent_customer_name_witness:
  "validate_details (vd_details (submission (Some [gadget]) ''INV-007'' None)) = Inr ()
   \<and> validate_invoice_number acme_db
        (vd_invoice_number (submission (Some [gadget]) ''INV-007'' None)) = Inr ()
   \<and> vd_customer_name (submission (Some [gadget]) ''INV-007'' None) = None
   \<and> validate acme_db (submission (Some [gadget]) ''INV-007'' None) = Inl AttributeError
   \<and> validate_customer_name (Some [32, 9]) =
       Inl (ValidationError ''Customer name cannot be empty.'')
   \<and> validate acme_db (submission (Some [gadget]) ''INV-007'' (Some [32, 9])) =
       Inl (ValidationError ''Customer name cannot be empty.'')
   \<and> (\<exists>s. vd_customer_name (submission (Some [gadget]) ''INV-007'' (Some [32, 9])) = Some s
        \<and> strip s = [])"
proof -
  have a: "validate_details (vd_details (submission (Some [gadget]) ''INV-007'' None)) = Inr ()"
    by (simp add: validate_details_def submission_def)
  have b: "validate_invoice_number acme_db
        (vd_invoice_number (submission (Some [gadget]) ''INV-007'' None)) = Inr ()"
    by (simp add: validate_invoice_number_def Invoice_filter_exists_def submission_def
        acme_db_def acme_def str_of_inject)
  have c: "vd_customer_name (submission (Some [gadget]) ''INV-007'' None) = None"
    by (simp add: submission_def)
  have d: "strip [32, 9] = []"
    by (simp add: strip_def isspace_def)
  have e: "validate acme_db (submission (Some [gadget]) ''INV-007'' (Some [32, 9])) =
       Inl (ValidationError ''Customer name cannot be empty.'')"
    using d
    by (simp add: validate_decision_list submission_def Invoice_filter_exists_def acme_db_def
        acme_def str_of_inject)
  show ?thesis
    using a b c d e
      validate_absent_customer_name [of "submission (Some [gadget]) ''INV-007'' None" acme_db
        "Some [32, 9]"]
      validate_absent_customer_name [of "submission (Some [gadget]) ''INV-007'' (Some [32, 9])"
        acme_db "Some [32, 9]"]
    by simp
qed

section \<open>Properties of the storage writes\<close>

lemma upt_step: "[n ..< n + Suc k] = n # [Suc n ..< Suc n + k]"
  by (simp add: upt_rec [of n])

lemma detail_inserts_Suc:
  "detail_inserts n parent (Suc k) = InsertDetail n parent # detail_inserts (Suc n) parent k"
  unfolding detail_inserts_def upt_step by simp

lemma length_new_details: "length (new_details n parent ds) = length ds"
  by (induction ds arbitrary: n) simp_all

lemma submitted_new_details: "map submitted (new_details n parent ds) = ds"
  by (induction ds arbitrary: n) (simp_all add: submitted_def)

lemma pk_new_details: "map pk (new_details n parent ds) = [n ..< n + length ds]"
proof (induction ds arbitrary: n)
  case Nil
  show ?case by simp
next
  case (Cons d ds)
  have "map pk (new_details n parent (d # ds)) = n # [Suc n ..< Suc n + length ds]"
    by (simp add: Cons.IH)
  also have "\<dots> = [n ..< n + length (d # ds)]"
    using upt_step [of n "length ds"] by simp
  finally show ?case .
qed

lemma invoice_id_new_details: "d \<in> set (new_details n parent ds) \<Longrightarrow> invoice_id d = parent"
  by (induction ds arbitrary: n) auto

lemma pk_bounds_new_details:
  "d \<in> set (new_details n parent ds) \<Longrightarrow> n \<le> pk d \<and> pk d < n + length ds"
proof -
  assume "d \<in> set (new_details n parent ds)"
  then have "pk d \<in> set (map pk (new_details n parent ds))"
    by simp
  then show ?thesis
    by (simp add: pk_new_details)
qed

lemma cid_Invoice_objects:
  "Invoice_objects (create_invoice_details db invoice ds) = Invoice_objects db"
  by (induction ds arbitrary: db) (simp_all add: InvoiceDetail_objects_create_def Let_def)

lemma cid_next_invoice_pk:
  "next_invoice_pk (create_invoice_details db invoice ds) = next_invoice_pk db"
  by (induction ds arbitrary: db) (simp_all add: InvoiceDetail_objects_create_def Let_def)

lemma cid_next_detail_pk:
  "next_detail_pk (create_invoice_details db invoice ds) = next_detail_pk db + length ds"
  by (induction ds arbitrary: db) (simp_all add: InvoiceDetail_objects_create_def Let_def)

lemma cid_InvoiceDetail_objects:
  "InvoiceDetail_objects (create_invoice_details db invoice ds) =
     InvoiceDetail_objects db @ new_details (next_detail_pk db) (pk invoice) ds"
  by (induction ds arbitrary: db) (simp_all add: InvoiceDetail_objects_create_def Let_def)

lemma cid_journal:
  "journal (create_invoice_details db invoice ds) =
     journal db @ detail_inserts (next_detail_pk db) (pk invoice) (length ds)"
proof (induction ds arbitrary: db)
  case Nil
  show ?case by (simp add: detail_inserts_def)
next
  case (Cons d ds)
  show ?case
    by (simp add: Cons.IH detail_inserts_Suc InvoiceDetail_objects_create_def Let_def)
qed

lemma fresh_pks_iff:
  "fresh_pks db \<longleftrightarrow>
     (\<forall>d \<in> set (InvoiceDetail_objects db).
        pk d < next_detail_pk db \<and> invoice_id d < next_invoice_pk db)
     \<and> (\<forall>i \<in> set (Invoice_objects db). pk i < next_invoice_pk db)"
  by (simp add: fresh_pks_def list_all_iff)

lemma fresh_pks_cid:
  assumes "fresh_pks db" and "pk invoice < next_invoice_pk db"
  shows "fresh_pks (create_invoice_details db invoice ds)"
  using assms
  by (auto simp: fresh_pks_iff cid_Invoice_objects cid_next_invoice_pk cid_next_detail_pk
      cid_InvoiceDetail_objects dest: invoice_id_new_details pk_bounds_new_details)

lemma fresh_pks_details_all_delete:
  "fresh_pks db \<Longrightarrow> fresh_pks (details_all_delete db instance)"
  by (auto simp: fresh_pks_iff details_all_delete_def)

lemma fresh_pks_Invoice_delete:
  "fresh_pks db \<Longrightarrow> fresh_pks (Invoice_delete db instance)"
  by (auto simp: fresh_pks_iff Invoice_delete_def)

lemma fresh_pks_Invoice_save:
  "fresh_pks db \<Longrightarrow> fresh_pks (Invoice_save db instance)
     \<and> pk instance < next_invoice_pk (Invoice_save db instance)"
  by (auto simp: fresh_pks_iff Invoice_save_def list_ex_iff)

lemma fresh_pks_create:
  assumes "fresh_pks db" and "create dflt db validated_data = Inr (invoice, db')"
  shows "fresh_pks db'"
proof -
  from assms(2) obtain ds where ds: "vd_details validated_data = Some ds"
    by (auto simp: create_def split: option.splits)
  obtain inv1 db1 where c: "Invoice_objects_create dflt db validated_data = (inv1, db1)"
    by (cases "Invoice_objects_create dflt db validated_data")
  with assms(2) ds have r: "invoice = inv1" "db' = create_invoice_details db1 inv1 ds"
    by (auto simp: create_def)
  from c assms(1) have "fresh_pks db1" "pk inv1 < next_invoice_pk db1"
    by (auto simp: Invoice_objects_create_def Let_def fresh_pks_iff less_Suc_eq)
  then show ?thesis
    unfolding r by (rule fresh_pks_cid)
qed

lemma fresh_pks_update:
  assumes "fresh_pks db" and "update db instance validated_data = Inr (instance', db')"
  shows "fresh_pks db'"
proof -
  from assms(2) obtain ds where ds: "vd_details validated_data = Some ds"
    by (auto simp: update_def split: option.splits)
  with assms(2) have r:
    "db' = create_invoice_details (details_all_delete (Invoice_save db instance') instance')
       instance' ds"
    by (auto simp: update_def Let_def)
  have "fresh_pks (details_all_delete (Invoice_save db instance') instance')"
    using assms(1) fresh_pks_Invoice_save fresh_pks_details_all_delete by blast
  moreover have "pk instance' < next_invoice_pk (details_all_delete (Invoice_save db instance') instance')"
    using assms(1) fresh_pks_Invoice_save [of db instance']
    by (simp add: details_all_delete_def)
  ultimately show ?thesis
    unfolding r by (rule fresh_pks_cid)
qed

lemma fresh_pks_delete: "fresh_pks db \<Longrightarrow> fresh_pks (snd (delete db instance))"
  by (simp add: delete_def Let_def fresh_pks_Invoice_delete fresh_pks_details_all_delete)

lemma update_Some:
  assumes "vd_details validated_data = Some details_data"
  shows "\<exists>instance'.
     update db instance validated_data =
       Inr (instance',
         create_invoice_details (details_all_delete (Invoice_save db instance') instance')
           instance' details_data)
     \<and> pk instance' = pk instance
     \<and> invoice_number instance' =
         (case vd_invoice_number validated_data of
            None \<Rightarrow> invoice_number instance | Some v \<Rightarrow> v)
     \<and> customer_name instance' =
         (case vd_customer_name validated_data of
            None \<Rightarrow> customer_name instance | Some v \<Rightarrow> v)
     \<and> date instance' =
         (case vd_date validated_data of None \<Rightarrow> date instance | Some v \<Rightarrow> v)"
  using assms by (simp add: update_def Let_def)

lemma Invoice_save_details:
  "InvoiceDetail_objects (Invoice_save db instance) = InvoiceDetail_objects db"
  "next_detail_pk (Invoice_save db instance) = next_detail_pk db"
  by (simp_all add: Invoice_save_def)

lemma Invoice_save_rows:
  assumes "instance \<in> set (Invoice_objects db)" and "pk instance' = pk instance"
  shows "Invoice_objects (Invoice_save db instance') =
     map (\<lambda>i. if pk i = pk instance then instance' else i) (Invoice_objects db)"
proof -
  from assms have "list_ex (\<lambda>i. pk i = pk instance') (Invoice_objects db)"
    by (auto simp: list_ex_iff)
  then show ?thesis
    by (simp add: Invoice_save_def assms(2))
qed

lemma update_details:
  "InvoiceDetail_objects
     (create_invoice_details (details_all_delete (Invoice_save db instance') instance')
        instance' ds) =
   filter (\<lambda>d. invoice_id d \<noteq> pk instance') (InvoiceDetail_objects db)
     @ new_details (next_detail_pk db) (pk instance') ds"
  by (simp add: cid_InvoiceDetail_objects details_all_delete_def Invoice_save_details)

section \<open>Properties of create, update and delete\<close>

text \<open>
  C4: for a validated submission with N line items, \<open>create\<close> succeeds; it appends one
  header record under the next invoice identifier, carrying the submitted header
  fields, and after it N line-item records, each linked to that identifier, with the
  submitted fields in submission order and with consecutive new identifiers. The
  journal shows the header insertion first and the N line-item insertions after it,
  and the invoice returned is the stored header. When storage hands out fresh
  identifiers, the line items linked to the new invoice are exactly those N.
\<close>

theorem create_persists:
  assumes "vd_details validated_data = Some details_data"
  shows "\<exists>invoice db' items.
     create dflt db validated_data = Inr (invoice, db')
     \<and> pk invoice = next_invoice_pk db
     \<and> (\<forall>v. vd_invoice_number validated_data = Some v \<longrightarrow> invoice_number invoice = v)
     \<and> (\<forall>v. vd_customer_name validated_data = Some v \<longrightarrow> customer_name invoice = v)
     \<and> (\<forall>v. vd_date validated_data = Some v \<longrightarrow> date invoice = v)
     \<and> Invoice_objects db' = Invoice_objects db @ [invoice]
     \<and> InvoiceDetail_objects db' = InvoiceDetail_objects db @ items
     \<and> length items = length details_data
     \<and> map submitted items = details_data
     \<and> (\<forall>d \<in> set items. invoice_id d = pk invoice)
     \<and> map pk items = [next_detail_pk db ..< next_detail_pk db + length details_data]
     \<and> journal db' =
         journal db @ InsertInvoice (pk invoice)
           # detail_inserts (next_detail_pk db) (pk invoice) (length details_data)
     \<and> (fresh_pks db \<longrightarrow>
          filter (\<lambda>d. invoice_id d = pk invoice) (InvoiceDetail_objects db') = items)"
proof -
  obtain invoice db1 where c: "Invoice_objects_create dflt db validated_data = (invoice, db1)"
    by (cases "Invoice_objects_create dflt db validated_data")
  define db' where "db' = create_invoice_details db1 invoice details_data"
  define items where "items = new_details (next_detail_pk db) (pk invoice) details_data"
  from c have inv: "pk invoice = next_invoice_pk db"
    and num: "\<forall>v. vd_invoice_number validated_data = Some v \<longrightarrow> invoice_number invoice = v"
    and name: "\<forall>v. vd_customer_name validated_data = Some v \<longrightarrow> customer_name invoice = v"
    and dat: "\<forall>v. vd_date validated_data = Some v \<longrightarrow> date invoice = v"
    by (auto simp: Invoice_objects_create_def Let_def)
  from c have db1:
    "Invoice_objects db1 = Invoice_objects db @ [invoice]"
    "InvoiceDetail_objects db1 = InvoiceDetail_objects db"
    "next_detail_pk db1 = next_detail_pk db"
    "journal db1 = journal db @ [InsertInvoice (pk invoice)]"
    by (auto simp: Invoice_objects_create_def Let_def)
  have res: "create dflt db validated_data = Inr (invoice, db')"
    using assms c by (simp add: create_def db'_def)
  have rows: "Invoice_objects db' = Invoice_objects db @ [invoice]"
    by (simp add: db'_def cid_Invoice_objects db1)
  have dets: "InvoiceDetail_objects db' = InvoiceDetail_objects db @ items"
    by (simp add: db'_def items_def cid_InvoiceDetail_objects db1)
  have len: "length items = length details_data"
    by (simp add: items_def length_new_details)
  have sub: "map submitted items = details_data"
    by (simp add: items_def submitted_new_details)
  have link: "\<forall>d \<in> set items. invoice_id d = pk invoice"
    by (auto simp: items_def dest: invoice_id_new_details)
  have pks: "map pk items = [next_detail_pk db ..< next_detail_pk db + length details_data]"
    by (simp add: items_def pk_new_details)
  have jour: "journal db' =
      journal db @ InsertInvoice (pk invoice)
        # detail_inserts (next_detail_pk db) (pk invoice) (length details_data)"
    by (simp add: db'_def cid_journal db1)
  have only: "fresh_pks db \<longrightarrow>
      filter (\<lambda>d. invoice_id d = pk invoice) (InvoiceDetail_objects db') = items"
  proof
    assume "fresh_pks db"
    then have "filter (\<lambda>d. invoice_id d = pk invoice) (InvoiceDetail_objects db) = []"
      by (auto simp: fresh_pks_iff inv filter_empty_conv)
    moreover from link have "filter (\<lambda>d. invoice_id d = pk invoice) items = items"
      by (simp add: filter_id_conv)
    ultimately show "filter (\<lambda>d. invoice_id d = pk invoice) (InvoiceDetail_objects db') = items"
      by (simp add: dets)
  qed
  from res inv num name dat rows dets len sub link pks jour only show ?thesis
    by blast
qed

theorem create_persists_witness:
  "vd_details (submission (Some [widget, gadget]) ''INV-002'' (Some (str_of ''Globex'')))
     = Some [widget, gadget]
   \<and> fresh_pks acme_db
   \<and> (\<exists>invoice db'.
        create acme acme_db (submission (Some [widget, gadget]) ''INV-002'' (Some (str_of ''Globex'')))
          = Inr (invoice, db')
        \<and> pk invoice = 2
        \<and> invoice_number invoice = str_of ''INV-002''
        \<and> customer_name invoice = str_of ''Globex''
        \<and> Invoice_objects db' = [acme, invoice]
        \<and> map submitted (filter (\<lambda>d. invoice_id d = 2) (InvoiceDetail_objects db'))
            = [widget, gadget]
        \<and> map pk (filter (\<lambda>d. invoice_id d = 2) (InvoiceDetail_objects db')) = [4, 5]
        \<and> journal db' = [InsertInvoice 2, InsertDetail 4 2, InsertDetail 5 2])"
proof -
  let ?S = "submission (Some [widget, gadget]) ''INV-002'' (Some (str_of ''Globex''))"
  have h: "vd_details ?S = Some [widget, gadget]"
    by (simp add: submission_def)
  have f: "fresh_pks acme_db"
    by (simp add: fresh_pks_def acme_db_def acme_def)
  have n: "next_invoice_pk acme_db = 2" "next_detail_pk acme_db = 4" "journal acme_db = []"
    "Invoice_objects acme_db = [acme]"
    by (simp_all add: acme_db_def)
  have s: "vd_invoice_number ?S = Some (str_of ''INV-002'')"
    "vd_customer_name ?S = Some (str_of ''Globex'')"
    by (simp_all add: submission_def)
  have u: "[4 ..< 6] = [4, 5 :: nat]"
    by (simp add: upt_rec)
  from create_persists [OF h, of acme acme_db] obtain invoice db' items where
    r: "create acme acme_db ?S = Inr (invoice, db')
        \<and> pk invoice = next_invoice_pk acme_db
        \<and> (\<forall>v. vd_invoice_number ?S = Some v \<longrightarrow> invoice_number invoice = v)
        \<and> (\<forall>v. vd_customer_name ?S = Some v \<longrightarrow> customer_name invoice = v)
        \<and> (\<forall>v. vd_date ?S = Some v \<longrightarrow> date invoice = v)
        \<and> Invoice_objects db' = Invoice_objects acme_db @ [invoice]
        \<and> InvoiceDetail_objects db' = InvoiceDetail_objects acme_db @ items
        \<and> length items = length [widget, gadget]
        \<and> map submitted items = [widget, gadget]
        \<and> (\<forall>d \<in> set items. invoice_id d = pk invoice)
        \<and> map pk items = [next_detail_pk acme_db ..< next_detail_pk acme_db + length [widget, gadget]]
        \<and> journal db' =
            journal acme_db @ InsertInvoice (pk invoice)
              # detail_inserts (next_detail_pk acme_db) (pk invoice) (length [widget, gadget])
        \<and> (fresh_pks acme_db \<longrightarrow>
             filter (\<lambda>d. invoice_id d = pk invoice) (InvoiceDetail_objects db') = items)"
    by (elim exE)
  from r have c: "create acme acme_db ?S = Inr (invoice, db')"
    by (elim conjE)
  from r n have p: "pk invoice = 2"
    by simp
  from r s have hd: "invoice_number invoice = str_of ''INV-002''"
    "customer_name invoice = str_of ''Globex''"
    by simp_all
  from r n have rows: "Invoice_objects db' = [acme, invoice]"
    by simp
  from r have "fresh_pks acme_db \<longrightarrow>
      filter (\<lambda>d. invoice_id d = pk invoice) (InvoiceDetail_objects db') = items"
    by (elim conjE)
  with f p have flt: "filter (\<lambda>d. invoice_id d = 2) (InvoiceDetail_objects db') = items"
    by simp
  from r have sub: "map submitted items = [widget, gadget]"
    by (elim conjE)
  from r n u have pks: "map pk items = [4, 5]"
    by simp
  from r n u p have jour: "journal db' = [InsertInvoice 2, InsertDetail 4 2, InsertDetail 5 2]"
    by (simp add: detail_inserts_def)
  from sub flt have sub': "map submitted (filter (\<lambda>d. invoice_id d = 2) (InvoiceDetail_objects db'))
      = [widget, gadget]"
    by simp
  from pks flt have pks': "map pk (filter (\<lambda>d. invoice_id d = 2) (InvoiceDetail_objects db')) = [4, 5]"
    by simp
  from c p hd rows sub' pks' jour have "\<exists>invoice db'.
        create acme acme_db ?S = Inr (invoice, db')
        \<and> pk invoice = 2
        \<and> invoice_number invoice = str_of ''INV-002''
        \<and> customer_name invoice = str_of ''Globex''
        \<and> Invoice_objects db' = [acme, invoice]
        \<and> map submitted (filter (\<lambda>d. invoice_id d = 2) (InvoiceDetail_objects db'))
            = [widget, gadget]
        \<and> map pk (filter (\<lambda>d. invoice_id d = 2) (InvoiceDetail_objects db')) = [4, 5]
        \<and> journal db' = [InsertInvoice 2, InsertDetail 4 2, InsertDetail 5 2]"
    by (intro exI [of _ invoice] exI [of _ db'] conjI)
  with h f show ?thesis
    by (intro conjI)
qed

text \<open>
  C1: for a submission with N line items, \<open>update\<close> succeeds and leaves, as the line
  items linked to the invoice, exactly N records: they carry the submitted fields in
  submission order and have identifiers that storage had not yet assigned. Line items
  of other invoices are untouched. No hypothesis relates the submitted items to the
  stored ones: when storage hands out fresh identifiers, every line item the invoice
  had before is gone afterwards, also one whose fields equal a submitted item's.
\<close>

theorem update_replaces_details:
  assumes "vd_details validated_data = Some details_data"
  shows "\<exists>instance' db' items.
     update db instance validated_data = Inr (instance', db')
     \<and> filter (\<lambda>d. invoice_id d = pk instance) (InvoiceDetail_objects db') = items
     \<and> length items = length details_data
     \<and> map submitted items = details_data
     \<and> map pk items = [next_detail_pk db ..< next_detail_pk db + length details_data]
     \<and> filter (\<lambda>d. invoice_id d \<noteq> pk instance) (InvoiceDetail_objects db') =
         filter (\<lambda>d. invoice_id d \<noteq> pk instance) (InvoiceDetail_objects db)
     \<and> (fresh_pks db \<longrightarrow>
          (\<forall>d \<in> set (InvoiceDetail_objects db).
             invoice_id d = pk instance \<longrightarrow> d \<notin> set (InvoiceDetail_objects db')))"
proof -
  from update_Some [OF assms, of db "instance"] obtain instance' where
    res: "update db instance validated_data =
       Inr (instance',
         create_invoice_details (details_all_delete (Invoice_save db instance') instance')
           instance' details_data)"
    and key: "pk instance' = pk instance"
    by blast
  define db' where
    "db' = create_invoice_details (details_all_delete (Invoice_save db instance') instance')
       instance' details_data"
  define items where "items = new_details (next_detail_pk db) (pk instance) details_data"
  have dets: "InvoiceDetail_objects db' =
      filter (\<lambda>d. invoice_id d \<noteq> pk instance) (InvoiceDetail_objects db) @ items"
    by (simp add: db'_def items_def update_details key)
  have link: "\<forall>d \<in> set items. invoice_id d = pk instance"
    by (auto simp: items_def dest: invoice_id_new_details)
  then have keep: "filter (\<lambda>d. invoice_id d = pk instance) items = items"
    and drop: "filter (\<lambda>d. invoice_id d \<noteq> pk instance) items = []"
    by (simp_all add: filter_id_conv filter_empty_conv)
  have own: "filter (\<lambda>d. invoice_id d = pk instance) (InvoiceDetail_objects db') = items"
    by (simp add: dets keep)
  have len: "length items = length details_data"
    by (simp add: items_def length_new_details)
  have sub: "map submitted items = details_data"
    by (simp add: items_def submitted_new_details)
  have pks: "map pk items = [next_detail_pk db ..< next_detail_pk db + length details_data]"
    by (simp add: items_def pk_new_details)
  have others: "filter (\<lambda>d. invoice_id d \<noteq> pk instance) (InvoiceDetail_objects db') =
      filter (\<lambda>d. invoice_id d \<noteq> pk instance) (InvoiceDetail_objects db)"
    by (simp add: dets drop)
  have gone: "fresh_pks db \<longrightarrow>
      (\<forall>d \<in> set (InvoiceDetail_objects db).
         invoice_id d = pk instance \<longrightarrow> d \<notin> set (InvoiceDetail_objects db'))"
  proof (intro impI ballI)
    fix d
    assume f: "fresh_pks db" and d: "d \<in> set (InvoiceDetail_objects db)"
      and own: "invoice_id d = pk instance"
    from f d have "pk d < next_detail_pk db"
      by (simp add: fresh_pks_iff)
    then have "d \<notin> set items"
      using pk_bounds_new_details [of d "next_detail_pk db" "pk instance" details_data]
      by (auto simp: items_def)
    with own show "d \<notin> set (InvoiceDetail_objects db')"
      by (simp add: dets)
  qed
  from res have "update db instance validated_data = Inr (instance', db')"
    by (simp add: db'_def)
  with own len sub pks others gone show ?thesis
    by (intro exI [of _ instance'] exI [of _ db'] exI [of _ items] conjI)
qed

theorem update_replaces_details_witness:
  "vd_details (submission (Some [widget]) ''INV-001'' (Some (str_of ''Acme''))) = Some [widget]
   \<and> fresh_pks acme_db
   \<and> length (filter (\<lambda>d. invoice_id d = pk acme) (InvoiceDetail_objects acme_db)) = 3
   \<and> (\<exists>instance' db'.
        update acme_db acme (submission (Some [widget]) ''INV-001'' (Some (str_of ''Acme'')))
          = Inr (instance', db')
        \<and> map submitted (filter (\<lambda>d. invoice_id d = pk acme) (InvoiceDetail_objects db'))
            = [widget]
        \<and> map pk (filter (\<lambda>d. invoice_id d = pk acme) (InvoiceDetail_objects db')) = [4]
        \<and> (\<forall>d \<in> set (InvoiceDetail_objects acme_db).
             invoice_id d = pk acme \<longrightarrow> d \<notin> set (InvoiceDetail_objects db')))"
proof -
  let ?S = "submission (Some [widget]) ''INV-001'' (Some (str_of ''Acme''))"
  have h: "vd_details ?S = Some [widget]"
    by (simp add: submission_def)
  have f: "fresh_pks acme_db"
    by (simp add: fresh_pks_def acme_db_def acme_def)
  have three: "length (filter (\<lambda>d. invoice_id d = pk acme) (InvoiceDetail_objects acme_db)) = 3"
    by (simp add: acme_db_def acme_def)
  have n: "next_detail_pk acme_db = 4"
    by (simp add: acme_db_def)
  have u: "[4 ..< 5] = [4 :: nat]"
    by (simp add: upt_rec)
  from update_replaces_details [OF h, of acme_db acme] obtain instance' db' items where
    r: "update acme_db acme ?S = Inr (instance', db')
     \<and> filter (\<lambda>d. invoice_id d = pk acme) (InvoiceDetail_objects db') = items
     \<and> length items = length [widget]
     \<and> map submitted items = [widget]
     \<and> map pk items = [next_detail_pk acme_db ..< next_detail_pk acme_db + length [widget]]
     \<and> filter (\<lambda>d. invoice_id d \<noteq> pk acme) (InvoiceDetail_objects db') =
         filter (\<lambda>d. invoice_id d \<noteq> pk acme) (InvoiceDetail_objects acme_db)
     \<and> (fresh_pks acme_db \<longrightarrow>
          (\<forall>d \<in> set (InvoiceDetail_objects acme_db).
             invoice_id d = pk acme \<longrightarrow> d \<notin> set (InvoiceDetail_objects db')))"
    by (elim exE)
  from r have c: "update acme_db acme ?S = Inr (instance', db')"
    by (elim conjE)
  from r have flt: "filter (\<lambda>d. invoice_id d = pk acme) (InvoiceDetail_objects db') = items"
    by (elim conjE)
  from r have "map submitted items = [widget]"
    by (elim conjE)
  with flt have sub: "map submitted (filter (\<lambda>d. invoice_id d = pk acme) (InvoiceDetail_objects db'))
      = [widget]"
    by simp
  from r n u have "map pk items = [4]"
    by simp
  with flt have pks: "map pk (filter (\<lambda>d. invoice_id d = pk acme) (InvoiceDetail_objects db')) = [4]"
    by simp
  from r have "fresh_pks acme_db \<longrightarrow>
          (\<forall>d \<in> set (InvoiceDetail_objects acme_db).
             invoice_id d = pk acme \<longrightarrow> d \<notin> set (InvoiceDetail_objects db'))"
    by (elim conjE)
  with f have gone: "\<forall>d \<in> set (InvoiceDetail_objects acme_db).
             invoice_id d = pk acme \<longrightarrow> d \<notin> set (InvoiceDetail_objects db')"
    by (rule rev_mp)
  from c sub pks gone have "\<exists>instance' db'.
        update acme_db acme ?S = Inr (instance', db')
        \<and> map submitted (filter (\<lambda>d. invoice_id d = pk acme) (InvoiceDetail_objects db'))
            = [widget]
        \<and> map pk (filter (\<lambda>d. invoice_id d = pk acme) (InvoiceDetail_objects db')) = [4]
        \<and> (\<forall>d \<in> set (InvoiceDetail_objects acme_db).
             invoice_id d = pk acme \<longrightarrow> d \<notin> set (InvoiceDetail_objects db'))"
    by (intro exI [of _ instance'] exI [of _ db'] conjI)
  with h f three show ?thesis
    by (intro conjI)
qed

text \<open>
  C8: for an invoice that is in storage, \<open>update\<close> succeeds and the invoice it returns has
  the identifier of the existing one and, for each of the three header fields, the
  submitted value when the key is present and the existing value when it is absent.
  That invoice replaces the stored row with its identifier, and every other stored
  invoice is left as it was.
\<close>

theorem update_header:
  assumes "vd_details validated_data = Some details_data"
    and "instance \<in> set (Invoice_objects db)"
  shows "\<exists>instance' db'.
     update db instance validated_data = Inr (instance', db')
     \<and> pk instance' = pk instance
     \<and> invoice_number instance' =
         (case vd_invoice_number validated_data of
            None \<Rightarrow> invoice_number instance | Some v \<Rightarrow> v)
     \<and> customer_name instance' =
         (case vd_customer_name validated_data of
            None \<Rightarrow> customer_name instance | Some v \<Rightarrow> v)
     \<and> date instance' =
         (case vd_date validated_data of None \<Rightarrow> date instance | Some v \<Rightarrow> v)
     \<and> Invoice_objects db' =
         map (\<lambda>i. if pk i = pk instance then instance' else i) (Invoice_objects db)
     \<and> instance' \<in> set (Invoice_objects db')
     \<and> (\<forall>i \<in> set (Invoice_objects db). pk i \<noteq> pk instance \<longrightarrow> i \<in> set (Invoice_objects db'))"
proof -
  from update_Some [OF assms(1), of db "instance"] obtain instance' where
    res: "update db instance validated_data =
       Inr (instance',
         create_invoice_details (details_all_delete (Invoice_save db instance') instance')
           instance' details_data)"
    and key: "pk instance' = pk instance"
    and num: "invoice_number instance' =
         (case vd_invoice_number validated_data of
            None \<Rightarrow> invoice_number instance | Some v \<Rightarrow> v)"
    and name: "customer_name instance' =
         (case vd_customer_name validated_data of
            None \<Rightarrow> customer_name instance | Some v \<Rightarrow> v)"
    and dat: "date instance' =
         (case vd_date validated_data of None \<Rightarrow> date instance | Some v \<Rightarrow> v)"
    by blast
  define db' where
    "db' = create_invoice_details (details_all_delete (Invoice_save db instance') instance')
       instance' details_data"
  have rows: "Invoice_objects db' =
      map (\<lambda>i. if pk i = pk instance then instance' else i) (Invoice_objects db)"
    using Invoice_save_rows [OF assms(2) key]
    by (simp add: db'_def cid_Invoice_objects details_all_delete_def)
  have stored: "instance' \<in> set (Invoice_objects db')"
    using assms(2) unfolding rows by force
  have rest: "\<forall>i \<in> set (Invoice_objects db). pk i \<noteq> pk instance \<longrightarrow> i \<in> set (Invoice_objects db')"
    unfolding rows by force
  from res have "update db instance validated_data = Inr (instance', db')"
    by (simp add: db'_def)
  with key num name dat rows stored rest show ?thesis
    by (intro exI [of _ instance'] exI [of _ db'] conjI)
qed

theorem update_header_witness:
  "vd_details rename_only = Some [gadget]
   \<and> acme \<in> set (Invoice_objects acme_db)
   \<and> (\<exists>instance' db'.
        update acme_db acme rename_only = Inr (instance', db')
        \<and> pk instance' = 1
        \<and> invoice_number instance' = str_of ''INV-001''
        \<and> customer_name instance' = str_of ''Acme Ltd''
        \<and> date instance' = Date 2024 1 1
        \<and> Invoice_objects db' = [instance'])"
proof -
  have h: "vd_details rename_only = Some [gadget]"
    by (simp add: rename_only_def)
  have e: "acme \<in> set (Invoice_objects acme_db)"
    by (simp add: acme_db_def)
  have v: "vd_invoice_number rename_only = None"
    "vd_customer_name rename_only = Some (str_of ''Acme Ltd'')"
    "vd_date rename_only = None"
    by (simp_all add: rename_only_def)
  have a: "pk acme = 1" "invoice_number acme = str_of ''INV-001''" "date acme = Date 2024 1 1"
    "Invoice_objects acme_db = [acme]"
    by (simp_all add: acme_def acme_db_def)
  from update_header [OF h e] obtain instance' db' where
    r: "update acme_db acme rename_only = Inr (instance', db')
     \<and> pk instance' = pk acme
     \<and> invoice_number instance' =
         (case vd_invoice_number rename_only of
            None \<Rightarrow> invoice_number acme | Some v \<Rightarrow> v)
     \<and> customer_name instance' =
         (case vd_customer_name rename_only of
            None \<Rightarrow> customer_name acme | Some v \<Rightarrow> v)
     \<and> date instance' =
         (case vd_date rename_only of None \<Rightarrow> date acme | Some v \<Rightarrow> v)
     \<and> Invoice_objects db' =
         map (\<lambda>i. if pk i = pk acme then instance' else i) (Invoice_objects acme_db)
     \<and> instance' \<in> set (Invoice_objects db')
     \<and> (\<forall>i \<in> set (Invoice_objects acme_db). pk i \<noteq> pk acme \<longrightarrow> i \<in> set (Invoice_objects db'))"
    by (elim exE)
  from r have c: "update acme_db acme rename_only = Inr (instance', db')"
    by (elim conjE)
  from r v a have f: "pk instance' = 1" "invoice_number instance' = str_of ''INV-001''"
    "customer_name instance' = str_of ''Acme Ltd''" "date instance' = Date 2024 1 1"
    "Invoice_objects db' = [instance']"
    by simp_all
  from c f have "\<exists>instance' db'.
        update acme_db acme rename_only = Inr (instance', db')
        \<and> pk instance' = 1
        \<and> invoice_number instance' = str_of ''INV-001''
        \<and> customer_name instance' = str_of ''Acme Ltd''
        \<and> date instance' = Date 2024 1 1
        \<and> Invoice_objects db' = [instance']"
    by (intro exI [of _ instance'] exI [of _ db'] conjI)
  with h e show ?thesis
    by (intro conjI)
qed

text \<open>
  C9: \<open>delete\<close> returns the confirmation message. It first destroys the line items of
  the invoice, with the header still stored, and then the header: the journal gains the
  deletion of the line items followed by the deletion of the header. Afterwards storage
  has no invoice with that identifier and no line item linked to it; other invoices and
  their line items stay.
\<close>

theorem delete_cascade:
  "\<exists>db'.
     delete db instance = ([(''message'', ''Invoice and its details deleted successfully.'')], db')
     \<and> journal db' = journal db @ [DeleteDetails (pk instance), DeleteInvoice (pk instance)]
     \<and> Invoice_objects (details_all_delete db instance) = Invoice_objects db
     \<and> (\<forall>d \<in> set (InvoiceDetail_objects (details_all_delete db instance)).
          invoice_id d \<noteq> pk instance)
     \<and> (\<forall>i \<in> set (Invoice_objects db'). pk i \<noteq> pk instance)
     \<and> (\<forall>d \<in> set (InvoiceDetail_objects db'). invoice_id d \<noteq> pk instance)
     \<and> Invoice_objects db' = filter (\<lambda>i. pk i \<noteq> pk instance) (Invoice_objects db)
     \<and> InvoiceDetail_objects db' =
         filter (\<lambda>d. invoice_id d \<noteq> pk instance) (InvoiceDetail_objects db)"
  by (simp add: delete_def Let_def details_all_delete_def Invoice_delete_def)

theorem delete_cascade_witness:
  "acme \<in> set (Invoice_objects acme_db)
   \<and> length (filter (\<lambda>d. invoice_id d = pk acme) (InvoiceDetail_objects acme_db)) = 3
   \<and> (\<exists>db'.
        delete acme_db acme =
          ([(''message'', ''Invoice and its details deleted successfully.'')], db')
        \<and> journal db' = [DeleteDetails 1, DeleteInvoice 1]
        \<and> Invoice_objects db' = []
        \<and> InvoiceDetail_objects db' = [])"
proof -
  have e: "acme \<in> set (Invoice_objects acme_db)"
    by (simp add: acme_db_def)
  have three: "length (filter (\<lambda>d. invoice_id d = pk acme) (InvoiceDetail_objects acme_db)) = 3"
    by (simp add: acme_db_def acme_def)
  have a: "pk acme = 1" "journal acme_db = []"
    "filter (\<lambda>i. pk i \<noteq> pk acme) (Invoice_objects acme_db) = []"
    "filter (\<lambda>d. invoice_id d \<noteq> pk acme) (InvoiceDetail_objects acme_db) = []"
    by (simp_all add: acme_def acme_db_def)
  from delete_cascade [of acme_db acme] obtain db' where
    r: "delete acme_db acme =
          ([(''message'', ''Invoice and its details deleted successfully.'')], db')
     \<and> journal db' = journal acme_db @ [DeleteDetails (pk acme), DeleteInvoice (pk acme)]
     \<and> Invoice_objects (details_all_delete acme_db acme) = Invoice_objects acme_db
     \<and> (\<forall>d \<in> set (InvoiceDetail_objects (details_all_delete acme_db acme)).
          invoice_id d \<noteq> pk acme)
     \<and> (\<forall>i \<in> set (Invoice_objects db'). pk i \<noteq> pk acme)
     \<and> (\<forall>d \<in> set (InvoiceDetail_objects db'). invoice_id d \<noteq> pk acme)
     \<and> Invoice_objects db' = filter (\<lambda>i. pk i \<noteq> pk acme) (Invoice_objects acme_db)
     \<and> InvoiceDetail_objects db' =
         filter (\<lambda>d. invoice_id d \<noteq> pk acme) (InvoiceDetail_objects acme_db)"
    by (elim exE)
  from r have c: "delete acme_db acme =
          ([(''message'', ''Invoice and its details deleted successfully.'')], db')"
    by (elim conjE)
  from r have "journal db' = journal acme_db @ [DeleteDetails (pk acme), DeleteInvoice (pk acme)]"
    by (elim conjE)
  then have j: "journal db' = [DeleteDetails 1, DeleteInvoice 1]"
    by (simp add: a(1,2))
  from r have "Invoice_objects db' = filter (\<lambda>i. pk i \<noteq> pk acme) (Invoice_objects acme_db)"
    by (elim conjE)
  then have rows: "Invoice_objects db' = []"
    by (simp only: a(3))
  from r have "InvoiceDetail_objects db' =
      filter (\<lambda>d. invoice_id d \<noteq> pk acme) (InvoiceDetail_objects acme_db)"
    by (elim conjE)
  then have dets: "InvoiceDetail_objects db' = []"
    by (simp only: a(4))
  note f = j rows dets
  from c f have "\<exists>db'.
        delete acme_db acme =
          ([(''message'', ''Invoice and its details deleted successfully.'')], db')
        \<and> journal db' = [DeleteDetails 1, DeleteInvoice 1]
        \<and> Invoice_objects db' = []
        \<and> InvoiceDetail_objects db' = []"
    by (intro exI [of _ db'] conjI)
  with e three show ?thesis
    by (intro conjI)
qed

end
